theory Spec2Isabelle
  imports Complex_Main "HOL-Library.Log_Nat"
begin

section \<open>JavaScript numbers\<close>

text \<open>
  The service (\<^verbatim>\<open>src/orders/orders.service.ts\<close>) is a class \<^verbatim>\<open>OrdersService\<close> that
  talks to two collaborators: the Prisma client it extends (the order store) and a NATS
  client proxy through which it asks the product catalog to validate product ids.

  The numbers of the service are IEEE 754 binary64 values, and its \<^verbatim>\<open>+\<close> and \<^verbatim>\<open>*\<close>
  round. A finite number is the real it denotes (the two zeros are not told apart); the
  result of an operation is a \<open>number\<close>, which may also be an infinity or \<open>NaN\<close>. The
  numbers that come in from outside (a price of the catalog reply, a quantity of the
  DTO) are finite: prices are \<open>real\<close>, the fields the DTO declares \<^verbatim>\<open>@IsInt\<close> are
  \<open>int\<close>, and an \<open>int\<close> enters the arithmetic as the real it denotes.
\<close>

datatype number = Finite real | PlusInfinity | MinusInfinity | NotANumber

text \<open>The power of 2 with an integer exponent.\<close>

definition pow2 :: "int \<Rightarrow> real" where
  "pow2 e = (if 0 \<le> e then 2 ^ nat e else 1 / 2 ^ nat (- e))"

text \<open>
  The binary exponent of a non-zero real: the \<open>e\<close> with
  \<open>pow2 e \<le> \<bar>x\<bar> < pow2 (e + 1)\<close>, computed from the bit length of the integer part
  of \<open>\<bar>x\<bar>\<close>, or of its reciprocal when \<open>\<bar>x\<bar> < 1\<close>.
\<close>

definition exponent :: "real \<Rightarrow> int" where
  "exponent x =
     (if 1 \<le> \<bar>x\<bar> then bitlen \<lfloor>\<bar>x\<bar>\<rfloor> - 1 else - bitlen (\<lceil>1 / \<bar>x\<bar>\<rceil> - 1))"

text \<open>
  The distance between neighbouring binary64 values around \<open>x\<close>: 52 fraction bits below
  the exponent, which is no less than -1022 (the subnormal range).
\<close>

definition ulp :: "real \<Rightarrow> real" where
  "ulp x = pow2 (max (exponent x) (- 1022) - 52)"

text \<open>The nearest integer, a tie going to the even one.\<close>

definition round_half_even :: "real \<Rightarrow> int" where
  "round_half_even m =
     (let f = \<lfloor>m\<rfloor>; d = m - of_int f
      in if d < 1 / 2 then f else if 1 / 2 < d then f + 1 else if even f then f else f + 1)"

definition overflow_threshold :: real where
  "overflow_threshold = 2 ^ 1024"

text \<open>
  Rounding of the exact result of an operation to binary64 (round to nearest, ties to
  even); a result that rounds to the overflow threshold or beyond is an infinity.
\<close>

definition round_binary64 :: "real \<Rightarrow> number" where
  "round_binary64 x =
     (if x = 0 then Finite 0
      else
        let r = of_int (round_half_even (x / ulp x)) * ulp x
        in if overflow_threshold \<le> r then PlusInfinity
           else if r \<le> - overflow_threshold then MinusInfinity
           else Finite r)"

text \<open>\<^verbatim>\<open>a + b\<close>\<close>

fun js_add :: "number \<Rightarrow> number \<Rightarrow> number" where
  "js_add (Finite a) (Finite b) = round_binary64 (a + b)"
| "js_add NotANumber _ = NotANumber"
| "js_add _ NotANumber = NotANumber"
| "js_add PlusInfinity MinusInfinity = NotANumber"
| "js_add MinusInfinity PlusInfinity = NotANumber"
| "js_add PlusInfinity _ = PlusInfinity"
| "js_add _ PlusInfinity = PlusInfinity"
| "js_add MinusInfinity _ = MinusInfinity"
| "js_add _ MinusInfinity = MinusInfinity"

text \<open>\<^verbatim>\<open>a * b\<close> for finite \<open>a\<close> and \<open>b\<close>\<close>

definition js_mul :: "real \<Rightarrow> real \<Rightarrow> number" where
  "js_mul a b = round_binary64 (a * b)"

section \<open>Data model of the orders service\<close>

text \<open>
  The repository has a second, older copy of the service without \<^verbatim>\<open>paidOrder\<close> and
  \<^verbatim>\<open>createPaymentSession\<close>; its \<^verbatim>\<open>create\<close>, \<^verbatim>\<open>findAll\<close>, \<^verbatim>\<open>findOne\<close> and
  \<^verbatim>\<open>changeOrderStatus\<close> are the same text, so one embedding covers both.
  \<^verbatim>\<open>createPaymentSession\<close> only forwards its argument to the payment service and is
  not embedded.
\<close>

text \<open>
  \<^verbatim>\<open>OrderItemDto\<close>: \<^verbatim>\<open>productId\<close>, \<^verbatim>\<open>quantity\<close>, \<^verbatim>\<open>price\<close>. The rows
  the service reads back from the store (\<^verbatim>\<open>select: {price, productId, quantity}\<close>)
  have exactly the same three fields, so the same record serves for both.
\<close>

record order_item =
  productId :: int
  quantity :: int
  price :: real

text \<open>The enriched item of a reply: \<^verbatim>\<open>{...item, name}\<close>.\<close>

record named_item = order_item +
  name :: string

text \<open>A product record of the catalog reply: \<^verbatim>\<open>{id, name, price}\<close>.\<close>

record product =
  product_id :: int
  product_name :: string
  product_price :: real

text \<open>
  Modelled from the spec: the Prisma schema that declares the \<^verbatim>\<open>OrderStatus\<close> enum, the
  columns of \<^verbatim>\<open>Order\<close> with their defaults and the \<^verbatim>\<open>OrderReceipt\<close> relation is not
  among the sources. The enum and the record below follow section 3 of the specification:
  status initially \<open>PENDING\<close>, \<open>paid\<close> false by default, \<open>paidAt\<close> and the charge id
  nullable, a collection of items, and an optional receipt (0 or 1).
\<close>

datatype OrderStatus = PENDING | PAID | CANCELLED | DELIVERED

record order_receipt =
  receiptUrl :: string

type_synonym date = int

text \<open>
  The order is polymorphic in the type of its items: the store holds \<open>order_item\<close>s, the
  replies of \<^verbatim>\<open>create\<close> and \<^verbatim>\<open>findOne\<close> carry \<open>named_item\<close>s.
\<close>

record 'i order =
  order_id :: string
  totalAmount :: number
  totalItems :: number
  status :: OrderStatus
  paid :: bool
  paidAt :: "date option"
  stripeChargeId :: "string option"
  OrderItems :: "'i list"
  OrderReceipt :: "order_receipt option"

type_synonym stored_order = "order_item order"
type_synonym OrderWithProducts = "named_item order"

text \<open>\<^verbatim>\<open>{...order, OrderItems: items}\<close>\<close>

definition with_items :: "'a order \<Rightarrow> 'b list \<Rightarrow> 'b order" where
  "with_items ord items =
     \<lparr>order_id = order_id ord, totalAmount = totalAmount ord, totalItems = totalItems ord,
      status = status ord, paid = paid ord, paidAt = paidAt ord,
      stripeChargeId = stripeChargeId ord, OrderItems = items,
      OrderReceipt = OrderReceipt ord\<rparr>"

subsection \<open>Errors\<close>

text \<open>
  Every \<^verbatim>\<open>throw\<close> of the service and every rejection of a collaborator is a value.
  \<open>RpcException\<close> is the structured error of the service (status code and message);
  \<open>Error\<close> is the plain JavaScript error thrown inside \<^verbatim>\<open>create\<close>; \<open>TypeError\<close> is what
  reading a property of \<^verbatim>\<open>undefined\<close> raises; \<open>PrismaClientError\<close> is a rejection of
  the store; \<open>Rejected\<close> is a rejection of the catalog call, with its message.
\<close>

datatype HttpStatus = BAD_REQUEST | NOT_FOUND

datatype error =
    RpcException HttpStatus string
  | Error string
  | TypeError string
  | PrismaClientError string
  | Rejected string

fun message :: "error \<Rightarrow> string" where
  "message (RpcException _ m) = m"
| "message (Error m) = m"
| "message (TypeError m) = m"
| "message (PrismaClientError m) = m"
| "message (Rejected m) = m"

text \<open>Template literals: \<^verbatim>\<open>${n}\<close> for an integer, \<^verbatim>\<open>${status}\<close> for a status.\<close>

definition digit_char :: "nat \<Rightarrow> char" where
  "digit_char d = char_of (48 + d)"

fun show_nat :: "nat \<Rightarrow> string" where
  "show_nat n = (if n < 10 then [digit_char n] else show_nat (n div 10) @ [digit_char (n mod 10)])"

declare show_nat.simps [simp del]

definition show_int :: "int \<Rightarrow> string" where
  "show_int i = (if i < 0 then CHR ''-'' # show_nat (nat (- i)) else show_nat (nat i))"

fun show_status :: "OrderStatus \<Rightarrow> string" where
  "show_status PENDING = ''PENDING''"
| "show_status PAID = ''PAID''"
| "show_status CANCELLED = ''CANCELLED''"
| "show_status DELIVERED = ''DELIVERED''"

subsection \<open>The world: the order store and the message channel\<close>

text \<open>
  \<open>orders\<close> are the rows of the order table, in the store's order; \<open>writes\<close> counts the
  write statements the store has committed; \<open>sent\<close> is the log of the requests sent
  through the client proxy (pattern and payload).
\<close>

record world =
  orders :: "stored_order list"
  writes :: nat
  sent :: "(string \<times> int list) list"

text \<open>\<^verbatim>\<open>this.client.send(pattern, payload)\<close>: the request goes out on the channel.\<close>

definition client_send :: "string \<Rightarrow> int list \<Rightarrow> world \<Rightarrow> world" where
  "client_send pattern payload w = w\<lparr>sent := sent w @ [(pattern, payload)]\<rparr>"

text \<open>
  The catalog is a parameter of every operation that calls it: given the ids of the
  request it either rejects with a message (\<open>Inl\<close>) or replies with product records.
\<close>

type_synonym catalog = "int list \<Rightarrow> string + product list"

subsection \<open>The store operations the service calls\<close>

text \<open>
  These are the operations of the Prisma client on the \<^verbatim>\<open>order\<close> model, over the rows of
  the world. A failed statement changes nothing.
\<close>

text \<open>\<^verbatim>\<open>this.order.findUnique({where: {id}})\<close>\<close>

definition order_findUnique :: "string \<Rightarrow> world \<Rightarrow> stored_order option" where
  "order_findUnique i w = find (\<lambda>ord. order_id ord = i) (orders w)"

text \<open>
  \<^verbatim>\<open>this.order.create({data: {totalAmount, totalItems, OrderItems: {createMany: {data}}}})\<close>:
  the new row gets the id the store generates (a parameter here), which must not be in
  use, the two totals as they are given, and the defaults of the other columns.
\<close>

definition order_create ::
  "string \<Rightarrow> number \<Rightarrow> number \<Rightarrow> order_item list \<Rightarrow> world
     \<Rightarrow> error + stored_order \<times> world" where
  "order_create newId amount nitems data w =
     (if order_findUnique newId w \<noteq> None
      then Inl (PrismaClientError ''Unique constraint failed on the fields: (`id`)'')
      else
        let ord = \<lparr>order_id = newId, totalAmount = amount, totalItems = nitems,
                   status = PENDING, paid = False, paidAt = None, stripeChargeId = None,
                   OrderItems = data, OrderReceipt = None\<rparr>
        in Inr (ord, w\<lparr>orders := orders w @ [ord], writes := Suc (writes w)\<rparr>))"

text \<open>
  The \<^verbatim>\<open>data\<close> argument of \<^verbatim>\<open>this.order.update\<close>: the columns to set (absent ones are
  left alone) and the nested \<^verbatim>\<open>OrderReceipt: {create: {receiptUrl}}\<close>.
\<close>

record update_data =
  set_status :: "OrderStatus option"
  set_paid :: "bool option"
  set_paidAt :: "date option"
  set_stripeChargeId :: "string option"
  create_receipt :: "string option"

definition apply_update :: "update_data \<Rightarrow> stored_order \<Rightarrow> stored_order" where
  "apply_update d ord =
     ord\<lparr>status := (case set_status d of None \<Rightarrow> status ord | Some s \<Rightarrow> s),
         paid := (case set_paid d of None \<Rightarrow> paid ord | Some b \<Rightarrow> b),
         paidAt := (case set_paidAt d of None \<Rightarrow> paidAt ord | Some t \<Rightarrow> Some t),
         stripeChargeId :=
           (case set_stripeChargeId d of None \<Rightarrow> stripeChargeId ord | Some c \<Rightarrow> Some c),
         OrderReceipt :=
           (case create_receipt d of None \<Rightarrow> OrderReceipt ord
            | Some u \<Rightarrow> Some \<lparr>receiptUrl = u\<rparr>)\<rparr>"

text \<open>Replace the first row with the given id.\<close>

fun replace_row :: "string \<Rightarrow> stored_order \<Rightarrow> stored_order list \<Rightarrow> stored_order list" where
  "replace_row i new [] = []"
| "replace_row i new (ord # rest) =
     (if order_id ord = i then new # rest else ord # replace_row i new rest)"

text \<open>
  \<^verbatim>\<open>this.order.update({where: {id}, data})\<close>: one statement, rejected when no row has
  the id; otherwise the row is replaced and returned.

  Modelled from the spec: the relation between \<^verbatim>\<open>Order\<close> and \<^verbatim>\<open>OrderReceipt\<close> is
  declared in the Prisma schema, which is not among the sources. Section 3 of the
  specification gives an order at most one receipt, created once; so a statement that
  asks for a receipt to be created for an order that already has one is rejected, and,
  as every rejected statement, changes nothing. The wording of the store's messages
  stands for whatever the client reports.
\<close>

definition order_update ::
  "string \<Rightarrow> update_data \<Rightarrow> world \<Rightarrow> error + stored_order \<times> world" where
  "order_update i d w =
     (case order_findUnique i w of
        None \<Rightarrow> Inl (PrismaClientError ''Record to update not found.'')
      | Some ord \<Rightarrow>
          if create_receipt d \<noteq> None \<and> OrderReceipt ord \<noteq> None
          then Inl (PrismaClientError ''Unique constraint failed on the fields: (`orderId`)'')
          else
            let new = apply_update d ord
            in Inr (new, w\<lparr>orders := replace_row i new (orders w), writes := Suc (writes w)\<rparr>))"

text \<open>The rows a \<^verbatim>\<open>where: {status}\<close> clause selects; an undefined status selects all.\<close>

definition matching :: "OrderStatus option \<Rightarrow> world \<Rightarrow> stored_order list" where
  "matching st w =
     (case st of None \<Rightarrow> orders w | Some s \<Rightarrow> filter (\<lambda>ord. status ord = s) (orders w))"

text \<open>\<^verbatim>\<open>this.order.count({where: {status}})\<close>\<close>

definition order_count :: "OrderStatus option \<Rightarrow> world \<Rightarrow> nat" where
  "order_count st w = length (matching st w)"

text \<open>
  \<^verbatim>\<open>this.order.findMany({where: {status}, skip, take})\<close>. Prisma rejects a negative
  \<^verbatim>\<open>skip\<close>; a negative \<^verbatim>\<open>take\<close> selects from the end of the list.
\<close>

definition order_findMany ::
  "OrderStatus option \<Rightarrow> int \<Rightarrow> int \<Rightarrow> world \<Rightarrow> error + stored_order list" where
  "order_findMany st skip tk w =
     (if skip < 0
      then Inl (PrismaClientError ''Invalid value for skip argument: Value can only be positive'')
      else if 0 \<le> tk
      then Inr (take (nat tk) (drop (nat skip) (matching st w)))
      else Inr (rev (take (nat (- tk)) (drop (nat skip) (rev (matching st w))))))"

section \<open>The operations of \<open>OrdersService\<close>\<close>

subsection \<open>\<open>create\<close>\<close>

text \<open>\<^verbatim>\<open>products.find((p) => p.id === item.productId)\<close>\<close>

definition find_product :: "product list \<Rightarrow> int \<Rightarrow> product option" where
  "find_product products pid = find (\<lambda>p. product_id p = pid) products"

text \<open>
  The reducer of \<^verbatim>\<open>totalAmount\<close>, \<^verbatim>\<open>acc + product.price * item.quantity\<close> from 0: the
  product is rounded, then the sum. It throws at the first item whose product the reply
  lacks, which ends the reduction.
\<close>

fun reduce_totalAmount ::
  "product list \<Rightarrow> number \<Rightarrow> order_item list \<Rightarrow> error + number" where
  "reduce_totalAmount products acc [] = Inr acc"
| "reduce_totalAmount products acc (item # items) =
     (case find_product products (productId item) of
        None \<Rightarrow> Inl (Error (''Product with id '' @ show_int (productId item) @ '' not found''))
      | Some product \<Rightarrow>
          reduce_totalAmount products
            (js_add acc (js_mul (product_price product) (real_of_int (quantity item)))) items)"

text \<open>The reducer of \<^verbatim>\<open>totalItems\<close>, \<^verbatim>\<open>acc + item.quantity\<close> from 0.\<close>

definition reduce_totalItems :: "order_item list \<Rightarrow> number" where
  "reduce_totalItems items =
     foldl (\<lambda>acc item. js_add acc (Finite (real_of_int (quantity item)))) (Finite 0) items"

text \<open>
  The rows handed to \<^verbatim>\<open>createMany\<close>: the price is read from the product found, with no
  check that one was found.
\<close>

fun priced_items :: "product list \<Rightarrow> order_item list \<Rightarrow> error + order_item list" where
  "priced_items products [] = Inr []"
| "priced_items products (item # items) =
     (case find_product products (productId item) of
        None \<Rightarrow> Inl (TypeError ''Cannot read properties of undefined (reading 'price')'')
      | Some product \<Rightarrow>
          (case priced_items products items of
             Inl e \<Rightarrow> Inl e
           | Inr rest \<Rightarrow>
               Inr (\<lparr>productId = productId item, quantity = quantity item,
                     price = product_price product\<rparr> # rest)))"

text \<open>
  The enrichment of a reply, shared by \<^verbatim>\<open>create\<close> and \<^verbatim>\<open>findOne\<close>:
  \<^verbatim>\<open>items.map((item) => ({...item, name: products.find(...).name}))\<close>, again with no
  check that a product was found.
\<close>

fun attach_names :: "product list \<Rightarrow> order_item list \<Rightarrow> error + named_item list" where
  "attach_names products [] = Inr []"
| "attach_names products (item # items) =
     (case find_product products (productId item) of
        None \<Rightarrow> Inl (TypeError ''Cannot read properties of undefined (reading 'name')'')
      | Some product \<Rightarrow>
          (case attach_names products items of
             Inl e \<Rightarrow> Inl e
           | Inr rest \<Rightarrow>
               Inr (order_item.extend item (named_item.fields (product_name product)) # rest)))"

text \<open>The body of the \<^verbatim>\<open>try\<close> block of \<^verbatim>\<open>create\<close>.\<close>

definition create_try ::
  "catalog \<Rightarrow> string \<Rightarrow> order_item list \<Rightarrow> world \<Rightarrow> (error + OrderWithProducts) \<times> world" where
  "create_try validate_product newId items w =
     (let productsIds = map productId items;
          w1 = client_send ''validate_product'' productsIds w
      in case validate_product productsIds of
           Inl m \<Rightarrow> (Inl (Rejected m), w1)
         | Inr products \<Rightarrow>
             (case reduce_totalAmount products (Finite 0) items of
                Inl e \<Rightarrow> (Inl e, w1)
              | Inr amount \<Rightarrow>
                  (case priced_items products items of
                     Inl e \<Rightarrow> (Inl e, w1)
                   | Inr data \<Rightarrow>
                       (case order_create newId amount (reduce_totalItems items) data w1 of
                          Inl e \<Rightarrow> (Inl e, w1)
                        | Inr (ord, w2) \<Rightarrow>
                            (case attach_names products (OrderItems ord) of
                               Inl e \<Rightarrow> (Inl e, w2)
                             | Inr named \<Rightarrow> (Inr (with_items ord named), w2))))))"

text \<open>
  \<^verbatim>\<open>create\<close>: whatever the \<^verbatim>\<open>try\<close> block throws is caught and thrown again as an
  \<^verbatim>\<open>RpcException\<close> with status \<open>BAD_REQUEST\<close> and the message of the error caught.
\<close>

definition create ::
  "catalog \<Rightarrow> string \<Rightarrow> order_item list \<Rightarrow> world \<Rightarrow> (error + OrderWithProducts) \<times> world" where
  "create validate_product newId items w =
     (case create_try validate_product newId items w of
        (Inl e, w') \<Rightarrow> (Inl (RpcException BAD_REQUEST (message e)), w')
      | (Inr r, w') \<Rightarrow> (Inr r, w'))"

subsection \<open>\<open>findAll\<close>\<close>

text \<open>
  The value of \<^verbatim>\<open>Math.ceil(total / perPage)\<close> for a count \<open>totalPages\<close>: a division by zero
  gives \<open>Infinity\<close>, or \<open>NaN\<close> when the count is zero too.
\<close>

datatype jsnum = Num int | Infinity | NaN

definition ceil_div :: "nat \<Rightarrow> int \<Rightarrow> jsnum" where
  "ceil_div totalPages perPage =
     (if perPage = 0 then (if totalPages = 0 then NaN else Infinity)
      else Num \<lceil>real totalPages / real_of_int perPage\<rceil>)"

text \<open>The \<^verbatim>\<open>meta\<close> object: \<^verbatim>\<open>total\<close>, \<^verbatim>\<open>page\<close>, \<^verbatim>\<open>lastPage\<close>.\<close>

record meta =
  total_meta :: nat
  page :: int
  lastPage :: jsnum

record page_of_orders =
  data :: "stored_order list"
  meta :: meta

text \<open>\<^verbatim>\<open>OrderPaginationDto\<close>: \<^verbatim>\<open>status\<close> (optional), \<^verbatim>\<open>page\<close>, \<^verbatim>\<open>limit\<close>.\<close>

definition findAll :: "OrderStatus option \<Rightarrow> int \<Rightarrow> int \<Rightarrow> world \<Rightarrow> error + page_of_orders" where
  "findAll st currentPage perPage w =
     (let totalPages = order_count st w
      in case order_findMany st ((currentPage - 1) * perPage) perPage w of
           Inl e \<Rightarrow> Inl e
         | Inr rows \<Rightarrow>
             Inr \<lparr>data = rows,
                  meta = \<lparr>total_meta = totalPages, page = currentPage,
                          lastPage = ceil_div totalPages perPage\<rparr>\<rparr>)"

subsection \<open>\<open>findOne\<close>\<close>

definition findOne :: "catalog \<Rightarrow> string \<Rightarrow> world \<Rightarrow> (error + OrderWithProducts) \<times> world" where
  "findOne validate_product i w =
     (case order_findUnique i w of
        None \<Rightarrow> (Inl (RpcException NOT_FOUND (''Order with id '' @ i @ '' not found'')), w)
      | Some ord \<Rightarrow>
          let productsIds = map productId (OrderItems ord);
              w1 = client_send ''validate_product'' productsIds w
          in case validate_product productsIds of
               Inl m \<Rightarrow> (Inl (Rejected m), w1)
             | Inr products \<Rightarrow>
                 (case attach_names products (OrderItems ord) of
                    Inl e \<Rightarrow> (Inl e, w1)
                  | Inr named \<Rightarrow> (Inr (with_items ord named), w1)))"

subsection \<open>\<open>changeOrderStatus\<close>\<close>

definition changeOrderStatus ::
  "string \<Rightarrow> OrderStatus \<Rightarrow> world \<Rightarrow> (error + stored_order) \<times> world" where
  "changeOrderStatus i st w =
     (case order_findUnique i w of
        None \<Rightarrow> (Inl (RpcException NOT_FOUND (''Order with id '' @ i @ '' not found'')), w)
      | Some ord \<Rightarrow>
          if status ord = st
          then (Inl (RpcException BAD_REQUEST
                  (''Order with id '' @ i @ '' already has status '' @ show_status st)), w)
          else
            (case order_update i
                    \<lparr>set_status = Some st, set_paid = None, set_paidAt = None,
                     set_stripeChargeId = None, create_receipt = None\<rparr> w of
               Inl e \<Rightarrow> (Inl e, w)
             | Inr (new, w') \<Rightarrow> (Inr new, w')))"

subsection \<open>\<open>paidOrder\<close>\<close>

text \<open>\<^verbatim>\<open>PaidOrderDto\<close>; \<open>now\<close> is the value of \<^verbatim>\<open>new Date()\<close>.\<close>

record PaidOrderDto =
  orderId :: string
  stripePaymentId :: string
  paid_receiptUrl :: string

definition paidOrder :: "date \<Rightarrow> PaidOrderDto \<Rightarrow> world \<Rightarrow> (error + stored_order) \<times> world" where
  "paidOrder now paidOrderDto w =
     (case order_update (orderId paidOrderDto)
             \<lparr>set_status = Some PAID, set_paid = Some True, set_paidAt = Some now,
              set_stripeChargeId = Some (stripePaymentId paidOrderDto),
              create_receipt = Some (paid_receiptUrl paidOrderDto)\<rparr> w of
        Inl e \<Rightarrow> (Inl e, w)
      | Inr (ord, w') \<Rightarrow> (Inr ord, w'))"

section \<open>The catalog reply as a table\<close>

text \<open>
  The properties below speak of "the catalog price" and "the catalog name" of a product
  id. These are read off the reply as a table from ids to prices and names, and \<open>known\<close>
  says that the reply has a record for an id.
\<close>

definition spec_catalog_price :: "product list \<Rightarrow> int \<Rightarrow> real" where
  "spec_catalog_price products pid =
     (case map_of (map (\<lambda>p. (product_id p, product_price p)) products) pid of
        Some x \<Rightarrow> x | None \<Rightarrow> 0)"

definition spec_catalog_name :: "product list \<Rightarrow> int \<Rightarrow> string" where
  "spec_catalog_name products pid =
     (case map_of (map (\<lambda>p. (product_id p, product_name p)) products) pid of
        Some x \<Rightarrow> x | None \<Rightarrow> [])"

text \<open>
  The exact amount of an item: the catalog price of its product times its quantity, as
  reals.
\<close>

definition spec_amount :: "product list \<Rightarrow> order_item \<Rightarrow> real" where
  "spec_amount products item =
     spec_catalog_price products (productId item) * real_of_int (quantity item)"

text \<open>The binary64 sum of a list of numbers, from 0 and from left to right.\<close>

definition js_sum :: "number list \<Rightarrow> number" where
  "js_sum xs = foldl js_add (Finite 0) xs"

text \<open>
  A real is a binary64 value when it is 0, or is a multiple of the \<open>ulp\<close> at its
  magnitude and below the overflow threshold. A list of reals sums exactly from \<open>acc\<close>
  when every partial sum is a binary64 value.
\<close>

definition binary64 :: "real \<Rightarrow> bool" where
  "binary64 x \<longleftrightarrow>
     x = 0 \<or> (\<bar>x\<bar> < overflow_threshold \<and> of_int \<lfloor>x / ulp x\<rfloor> = x / ulp x)"

fun exact_sum :: "real \<Rightarrow> real list \<Rightarrow> bool" where
  "exact_sum acc [] = True"
| "exact_sum acc (x # xs) = (binary64 (acc + x) \<and> exact_sum (acc + x) xs)"

definition known :: "product list \<Rightarrow> int \<Rightarrow> bool" where
  "known products pid = (pid \<in> set (map product_id products))"

text \<open>The stored orders a status filter matches: all of them when the filter is absent.\<close>

definition spec_matches :: "OrderStatus option \<Rightarrow> world \<Rightarrow> stored_order list" where
  "spec_matches st w = filter (\<lambda>ord. st = None \<or> st = Some (status ord)) (orders w)"

section \<open>Collaborators and worlds of the examples\<close>

text \<open>A catalog that replies with the given records, one that rejects with a message.\<close>

definition reply_with :: "product list \<Rightarrow> catalog" where
  "reply_with products ids = Inr products"

definition reject_with :: "string \<Rightarrow> catalog" where
  "reject_with m ids = Inl m"

text \<open>The binary64 value of the literal \<^verbatim>\<open>0.1\<close>.\<close>

definition one_tenth :: real where
  "one_tenth = 3602879701896397 / 36028797018963968"

definition empty_world :: world where
  "empty_world = \<lparr>orders = [], writes = 0, sent = []\<rparr>"

text \<open>A world holding one pending order, as \<open>create\<close> leaves it, and two payments for it.\<close>

definition example_order :: stored_order where
  "example_order =
     \<lparr>order_id = ''o1'', totalAmount = Finite 25, totalItems = Finite 3, status = PENDING,
      paid = False,
      paidAt = None, stripeChargeId = None,
      OrderItems = [\<lparr>productId = 1, quantity = 2, price = 10\<rparr>,
                    \<lparr>productId = 2, quantity = 1, price = 5\<rparr>],
      OrderReceipt = None\<rparr>"

definition example_world :: world where
  "example_world = \<lparr>orders = [example_order], writes = 1, sent = []\<rparr>"

definition example_products :: "product list" where
  "example_products = [\<lparr>product_id = 1, product_name = ''A'', product_price = 10\<rparr>,
                       \<lparr>product_id = 2, product_name = ''B'', product_price = 5\<rparr>]"

definition first_payment :: PaidOrderDto where
  "first_payment = \<lparr>orderId = ''o1'', stripePaymentId = ''ch_1'', paid_receiptUrl = ''https://r/1''\<rparr>"

definition second_payment :: PaidOrderDto where
  "second_payment = \<lparr>orderId = ''o1'', stripePaymentId = ''ch_2'', paid_receiptUrl = ''https://r/2''\<rparr>"

text \<open>Three orders, two of them pending; the catalog after its products were renamed.\<close>

definition three_orders_world :: world where
  "three_orders_world =
     \<lparr>orders = [example_order,
                example_order\<lparr>order_id := ''o2'', status := PAID\<rparr>,
                example_order\<lparr>order_id := ''o3''\<rparr>],
      writes = 4, sent = []\<rparr>"

definition renamed_products :: "product list" where
  "renamed_products = [\<lparr>product_id = 2, product_name = ''B (2nd edition)'', product_price = 7\<rparr>,
                       \<lparr>product_id = 1, product_name = ''A (new)'', product_price = 99\<rparr>]"

section \<open>Lemmas about the numbers\<close>

lemma pow2_pos: "0 < pow2 e"
  by (simp add: pow2_def)

lemma ulp_pos: "0 < ulp x"
  by (simp add: ulp_def pow2_pos)

text \<open>The exponent is the binary logarithm, rounded down.\<close>

lemma exponent_bounds:
  assumes "x \<noteq> 0"
  shows "pow2 (exponent x) \<le> \<bar>x\<bar> \<and> \<bar>x\<bar> < pow2 (exponent x + 1)"
proof (cases "1 \<le> \<bar>x\<bar>")
  case True
  let ?n = "\<lfloor>\<bar>x\<bar>\<rfloor>"
  from True have n: "0 < ?n" by linarith
  from bitlen_bounds [OF n]
  have lo: "2 ^ nat (bitlen ?n - 1) \<le> ?n" and hi: "?n < 2 ^ nat (bitlen ?n)" by simp_all
  have b: "1 \<le> bitlen ?n" using n by (auto simp: bitlen_alt_def)
  have "real_of_int (2 ^ nat (bitlen ?n - 1)) \<le> real_of_int ?n"
    using lo by (simp only: of_int_le_iff)
  also have "\<dots> \<le> \<bar>x\<bar>" by linarith
  finally have 1: "2 ^ nat (bitlen ?n - 1) \<le> \<bar>x\<bar>" by simp
  from hi have "?n + 1 \<le> 2 ^ nat (bitlen ?n)" by simp
  then have "real_of_int (?n + 1) \<le> real_of_int (2 ^ nat (bitlen ?n))"
    by (simp only: of_int_le_iff)
  then have "real_of_int ?n + 1 \<le> 2 ^ nat (bitlen ?n)" by simp
  moreover have "\<bar>x\<bar> < real_of_int ?n + 1" by linarith
  ultimately have 2: "\<bar>x\<bar> < 2 ^ nat (bitlen ?n)" by linarith
  from True b 1 2 show ?thesis
    by (simp add: exponent_def pow2_def)
next
  case False
  let ?y = "1 / \<bar>x\<bar>"
  let ?m = "\<lceil>?y\<rceil> - 1"
  from False assms have x: "0 < \<bar>x\<bar>" "\<bar>x\<bar> < 1" by simp_all
  then have y: "1 < ?y" by simp
  then have m: "0 < ?m" by linarith
  from bitlen_bounds [OF m]
  have lo: "2 ^ nat (bitlen ?m - 1) \<le> ?m" and hi: "?m < 2 ^ nat (bitlen ?m)" by simp_all
  have b: "1 \<le> bitlen ?m" using m by (auto simp: bitlen_alt_def)
  have "real_of_int (2 ^ nat (bitlen ?m - 1)) \<le> real_of_int ?m"
    using lo by (simp only: of_int_le_iff)
  also have "\<dots> < ?y" by linarith
  finally have 1: "2 ^ nat (bitlen ?m - 1) < ?y" by simp
  from hi have "?m + 1 \<le> 2 ^ nat (bitlen ?m)" by simp
  then have "real_of_int (?m + 1) \<le> real_of_int (2 ^ nat (bitlen ?m))"
    by (simp only: of_int_le_iff)
  then have "real_of_int ?m + 1 \<le> 2 ^ nat (bitlen ?m)" by simp
  moreover have "?y \<le> real_of_int ?m + 1" by linarith
  ultimately have 2: "?y \<le> 2 ^ nat (bitlen ?m)" by linarith
  have e: "exponent x = - bitlen ?m" using False by (simp add: exponent_def)
  have low: "pow2 (exponent x) \<le> \<bar>x\<bar>"
  proof -
    from 2 x have "1 \<le> 2 ^ nat (bitlen ?m) * \<bar>x\<bar>" by (simp add: pos_divide_le_eq)
    then have "1 / 2 ^ nat (bitlen ?m) \<le> \<bar>x\<bar>" by (simp add: pos_divide_le_eq mult.commute)
    with b show ?thesis by (simp add: e pow2_def)
  qed
  have high: "\<bar>x\<bar> < pow2 (exponent x + 1)"
  proof -
    from 1 x have "2 ^ nat (bitlen ?m - 1) * \<bar>x\<bar> < 1" by (simp add: pos_less_divide_eq)
    then have lt: "\<bar>x\<bar> < 1 / 2 ^ nat (bitlen ?m - 1)"
      by (simp add: pos_less_divide_eq mult.commute)
    show ?thesis
    proof (cases "bitlen ?m = 1")
      case True
      with lt show ?thesis by (simp add: e pow2_def)
    next
      case False
      with b have "nat (- (1 - bitlen ?m)) = nat (bitlen ?m - 1)" "\<not> 0 \<le> 1 - bitlen ?m"
        by simp_all
      with lt show ?thesis by (simp add: e pow2_def)
    qed
  qed
  from low high show ?thesis by simp
qed

lemma round_half_even_of_int: "round_half_even (of_int n) = n"
  by (simp add: round_half_even_def)

lemma round_half_even_nearest: "\<bar>of_int (round_half_even m) - m\<bar> \<le> 1 / 2"
proof -
  have "of_int \<lfloor>m\<rfloor> \<le> m" "m < of_int \<lfloor>m\<rfloor> + 1" by linarith+
  then show ?thesis
    by (auto simp: round_half_even_def Let_def)
qed

text \<open>Rounding leaves a binary64 value as it is, and moves no real by more than half an ulp.\<close>

lemma round_binary64_exact:
  assumes "binary64 x"
  shows "round_binary64 x = Finite x"
proof (cases "x = 0")
  case True
  then show ?thesis by (simp add: round_binary64_def)
next
  case False
  with assms have range: "\<bar>x\<bar> < overflow_threshold"
    and grid: "of_int \<lfloor>x / ulp x\<rfloor> = x / ulp x"
    by (simp_all add: binary64_def)
  have "round_half_even (x / ulp x) = \<lfloor>x / ulp x\<rfloor>"
    using round_half_even_of_int [of "\<lfloor>x / ulp x\<rfloor>"] grid by simp
  then have "of_int (round_half_even (x / ulp x)) * ulp x = x / ulp x * ulp x"
    by (simp only: grid)
  then have "of_int (round_half_even (x / ulp x)) * ulp x = x"
    using ulp_pos [of x] by simp
  moreover from range have "\<not> overflow_threshold \<le> x" "\<not> x \<le> - overflow_threshold"
    by linarith+
  ultimately show ?thesis
    using False by (simp add: round_binary64_def Let_def)
qed

lemma round_binary64_nearest:
  assumes "round_binary64 x = Finite r"
  shows "\<bar>r - x\<bar> \<le> ulp x / 2"
proof (cases "x = 0")
  case True
  with assms show ?thesis using ulp_pos [of 0] by (simp add: round_binary64_def)
next
  case False
  let ?n = "round_half_even (x / ulp x)"
  from assms False have r: "r = of_int ?n * ulp x"
    by (simp add: round_binary64_def Let_def split: if_splits)
  have "r - x = (of_int ?n - x / ulp x) * ulp x"
    using ulp_pos [of x] by (simp add: r algebra_simps)
  then have "\<bar>r - x\<bar> = \<bar>of_int ?n - x / ulp x\<bar> * ulp x"
    using ulp_pos [of x] by (simp add: abs_mult)
  also have "\<dots> \<le> 1 / 2 * ulp x"
    using round_half_even_nearest [of "x / ulp x"] ulp_pos [of x]
    by (intro mult_right_mono) simp_all
  finally show ?thesis by simp
qed

text \<open>An integer below \<open>2 ^ 53\<close> in magnitude is a binary64 value.\<close>

lemma pow2_mono: "a \<le> b \<Longrightarrow> pow2 a \<le> pow2 b"
proof -
  assume ab: "a \<le> b"
  have p: "pow2 e = 2 powr (real_of_int e)" for e
    by (cases "0 \<le> e") (simp_all add: pow2_def powr_realpow [symmetric] powr_minus divide_inverse)
  from ab show ?thesis by (simp add: p)
qed

lemma binary64_of_int:
  assumes "\<bar>n\<bar> < 2 ^ 53"
  shows "binary64 (real_of_int n)"
proof (cases "n = 0")
  case True
  then show ?thesis by (simp add: binary64_def)
next
  case False
  let ?x = "real_of_int n"
  let ?e = "exponent ?x"
  from False have x0: "?x \<noteq> 0" and x1: "1 \<le> \<bar>?x\<bar>" by simp_all
  from exponent_bounds [OF x0] have lo: "pow2 ?e \<le> \<bar>?x\<bar>" and hi: "\<bar>?x\<bar> < pow2 (?e + 1)"
    by simp_all
  from assms have "real_of_int \<bar>n\<bar> < real_of_int (2 ^ 53)" by (simp only: of_int_less_iff)
  then have x53: "\<bar>?x\<bar> < pow2 53" by (simp add: pow2_def)
  have e_hi: "?e \<le> 52"
  proof (rule ccontr)
    assume "\<not> ?e \<le> 52"
    then have "pow2 53 \<le> pow2 ?e" by (intro pow2_mono) simp
    with lo x53 show False by linarith
  qed
  have e_lo: "0 \<le> ?e"
  proof (rule ccontr)
    assume "\<not> 0 \<le> ?e"
    then have "pow2 (?e + 1) \<le> pow2 0" by (intro pow2_mono) simp
    with hi x1 show False by (simp add: pow2_def)
  qed
  from e_lo e_hi have u: "ulp ?x = 1 / 2 ^ nat (52 - ?e)"
    by (cases "?e = 52") (simp_all add: ulp_def pow2_def max_def)
  have "?x / ulp ?x = real_of_int (n * 2 ^ nat (52 - ?e))"
    by (simp add: u)
  then have grid: "of_int \<lfloor>?x / ulp ?x\<rfloor> = ?x / ulp ?x"
    by (simp only: floor_of_int)
  from x53 have "\<bar>?x\<bar> < overflow_threshold"
    by (simp add: pow2_def overflow_threshold_def)
  with grid show ?thesis by (simp only: binary64_def) blast
qed

text \<open>The equations that evaluate the operations on numerals.\<close>

lemmas js_eval = js_mul_def round_binary64_def ulp_def exponent_def pow2_def bitlen_def
  compute_floorlog round_half_even_def overflow_threshold_def binary64_def Let_def

lemma one_tenth_literal: "round_binary64 (1 / 10) = Finite one_tenth"
  by (simp add: js_eval one_tenth_def)

text \<open>A list that sums exactly has the sum of its reals as its binary64 sum.\<close>

lemma foldl_js_add_exact:
  "exact_sum acc xs \<Longrightarrow> foldl js_add (Finite acc) (map Finite xs) = Finite (acc + sum_list xs)"
proof (induction xs arbitrary: acc)
  case Nil
  then show ?case by simp
next
  case (Cons x xs)
  then have "round_binary64 (acc + x) = Finite (acc + x)"
    by (simp add: round_binary64_exact)
  with Cons show ?case by (simp add: add.assoc)
qed

lemma js_sum_exact: "exact_sum 0 xs \<Longrightarrow> js_sum (map Finite xs) = Finite (sum_list xs)"
  using foldl_js_add_exact [of 0 xs] by (simp add: js_sum_def)

section \<open>Lemmas about the lookups and the traversals\<close>

lemma find_product_None: "find_product products pid = None \<longleftrightarrow> \<not> known products pid"
  by (induction products) (auto simp: find_product_def known_def)

lemma find_product_known:
  "known products pid \<Longrightarrow> \<exists>p. find_product products pid = Some p"
  using find_product_None [of products pid] by (cases "find_product products pid") auto

lemma find_product_price:
  "find_product products pid = Some p \<Longrightarrow> spec_catalog_price products pid = product_price p"
  by (induction products) (auto simp: find_product_def spec_catalog_price_def split: if_splits)

lemma find_product_name:
  "find_product products pid = Some p \<Longrightarrow> spec_catalog_name products pid = product_name p"
  by (induction products) (auto simp: find_product_def spec_catalog_name_def split: if_splits)

lemma reduce_totalAmount_known:
  "\<forall>item\<in>set items. known products (productId item) \<Longrightarrow>
   reduce_totalAmount products acc items =
     Inr (foldl js_add acc
            (map (\<lambda>item. js_mul (spec_catalog_price products (productId item))
                           (real_of_int (quantity item))) items))"
proof (induction items arbitrary: acc)
  case Nil
  then show ?case by simp
next
  case (Cons item items)
  from Cons.prems obtain p where p: "find_product products (productId item) = Some p"
    using find_product_known by fastforce
  with Cons show ?case by (simp add: find_product_price)
qed

lemma reduce_totalItems_js_sum:
  "reduce_totalItems items = js_sum (map (\<lambda>item. Finite (real_of_int (quantity item))) items)"
  by (simp add: reduce_totalItems_def js_sum_def foldl_map)

lemma priced_items_known:
  "\<forall>item\<in>set items. known products (productId item) \<Longrightarrow>
   priced_items products items =
     Inr (map (\<lambda>item. \<lparr>productId = productId item, quantity = quantity item,
                        price = spec_catalog_price products (productId item)\<rparr>) items)"
proof (induction items)
  case Nil
  then show ?case by simp
next
  case (Cons item items)
  from Cons.prems obtain p where p: "find_product products (productId item) = Some p"
    using find_product_known by fastforce
  with Cons show ?case by (simp add: find_product_price)
qed

lemma attach_names_known:
  "\<forall>item\<in>set items. known products (productId item) \<Longrightarrow>
   attach_names products items =
     Inr (map (\<lambda>item. order_item.extend item
                 (named_item.fields (spec_catalog_name products (productId item)))) items)"
proof (induction items)
  case Nil
  then show ?case by simp
next
  case (Cons item items)
  from Cons.prems obtain p where p: "find_product products (productId item) = Some p"
    using find_product_known by fastforce
  with Cons show ?case by (simp add: find_product_name)
qed

lemma show_int_37: "show_int 37 = ''37''"
  by code_simp

lemma reduce_totalAmount_unknown:
  "\<exists>item\<in>set items. \<not> known products (productId item) \<Longrightarrow>
   \<exists>item\<in>set items. \<not> known products (productId item) \<and>
     reduce_totalAmount products acc items =
       Inl (Error (''Product with id '' @ show_int (productId item) @ '' not found''))"
proof (induction items arbitrary: acc)
  case Nil
  then show ?case by simp
next
  case (Cons item items)
  show ?case
  proof (cases "find_product products (productId item)")
    case None
    then have "\<not> known products (productId item)"
      by (simp add: find_product_None)
    with None show ?thesis by simp
  next
    case (Some p)
    then have "known products (productId item)"
      using find_product_None [of products "productId item"] by simp
    with Cons.prems have "\<exists>item\<in>set items. \<not> known products (productId item)"
      by auto
    from Cons.IH [OF this] Some show ?thesis by auto
  qed
qed

lemma attach_names_unknown:
  "\<exists>item\<in>set items. \<not> known products (productId item) \<Longrightarrow>
   attach_names products items =
     Inl (TypeError ''Cannot read properties of undefined (reading 'name')'')"
proof (induction items)
  case Nil
  then show ?case by simp
next
  case (Cons item items)
  show ?case
  proof (cases "find_product products (productId item)")
    case None
    then show ?thesis by simp
  next
    case (Some p)
    then have "known products (productId item)"
      using find_product_None [of products "productId item"] by simp
    with Cons.prems have "\<exists>item\<in>set items. \<not> known products (productId item)"
      by auto
    from Cons.IH [OF this] Some show ?thesis by simp
  qed
qed

lemma known_iff: "known products pid \<longleftrightarrow> (\<exists>p\<in>set products. product_id p = pid)"
  unfolding known_def by force

section \<open>Lemmas about the store\<close>

lemma order_findUnique_None:
  "order_findUnique i w = None \<longleftrightarrow> (\<forall>ord\<in>set (orders w). order_id ord \<noteq> i)"
  by (auto simp: order_findUnique_def find_None_iff)

lemma order_findUnique_id: "order_findUnique i w = Some ord \<Longrightarrow> order_id ord = i \<and> ord \<in> set (orders w)"
  by (auto simp: order_findUnique_def find_Some_iff)

lemma find_replace_row_same:
  "find (\<lambda>ord. order_id ord = i) rows = Some old \<Longrightarrow> order_id new = i \<Longrightarrow>
   find (\<lambda>ord. order_id ord = i) (replace_row i new rows) = Some new"
  by (induction rows) (auto split: if_splits)

lemma find_replace_row_other:
  "order_id new = i \<Longrightarrow> j \<noteq> i \<Longrightarrow>
   find (\<lambda>ord. order_id ord = j) (replace_row i new rows) = find (\<lambda>ord. order_id ord = j) rows"
  by (induction rows) auto

lemma order_id_apply_update: "order_id (apply_update d ord) = order_id ord"
  by (simp add: apply_update_def)

lemma order_update_Some:
  assumes "order_findUnique i w = Some ord"
    and "create_receipt d = None \<or> OrderReceipt ord = None"
  shows "order_update i d w =
           Inr (apply_update d ord,
                w\<lparr>orders := replace_row i (apply_update d ord) (orders w),
                  writes := Suc (writes w)\<rparr>)"
  using assms by (auto simp: order_update_def Let_def)

lemma order_findUnique_after_update:
  assumes "order_findUnique i w = Some ord"
  shows "order_findUnique i (w\<lparr>orders := replace_row i (apply_update d ord) (orders w),
                  writes := n\<rparr>) = Some (apply_update d ord)"
    and "j \<noteq> i \<Longrightarrow> order_findUnique j (w\<lparr>orders := replace_row i (apply_update d ord) (orders w),
                  writes := n\<rparr>) = order_findUnique j w"
proof -
  from assms have id: "order_id (apply_update d ord) = i"
    by (simp add: order_id_apply_update order_findUnique_id)
  from assms id show "order_findUnique i (w\<lparr>orders := replace_row i (apply_update d ord) (orders w),
                  writes := n\<rparr>) = Some (apply_update d ord)"
    by (simp add: order_findUnique_def find_replace_row_same)
  from id show "j \<noteq> i \<Longrightarrow> order_findUnique j (w\<lparr>orders := replace_row i (apply_update d ord) (orders w),
                  writes := n\<rparr>) = order_findUnique j w"
    by (simp add: order_findUnique_def find_replace_row_other)
qed

lemma findOne_known:
  assumes "order_findUnique i w = Some ord"
    and "validate_product (map productId (OrderItems ord)) = Inr products"
    and "\<forall>item\<in>set (OrderItems ord). known products (productId item)"
  shows "findOne validate_product i w =
           (Inr (with_items ord
                  (map (\<lambda>item. order_item.extend item
                          (named_item.fields (spec_catalog_name products (productId item))))
                     (OrderItems ord))),
            client_send ''validate_product'' (map productId (OrderItems ord)) w)"
  using assms by (simp add: findOne_def Let_def attach_names_known)

lemma example_found: "order_findUnique ''o1'' example_world = Some example_order"
  by (simp add: order_findUnique_def example_world_def example_order_def)

lemma matching_spec: "matching st w = spec_matches st w"
  by (cases st) (auto simp: matching_def spec_matches_def intro: filter_cong)

lemma divide_le_mult: "0 < (l::real) \<Longrightarrow> n / l \<le> k \<Longrightarrow> n \<le> k * l"
  by (simp add: pos_divide_le_eq)

lemma less_divide_mult: "0 < (l::real) \<Longrightarrow> k < n / l \<Longrightarrow> k * l < n"
  by (simp add: pos_less_divide_eq)

lemma ceiling_bounds:
  assumes "1 \<le> (L::int)"
  shows "int N \<le> \<lceil>real N / real_of_int L\<rceil> * L
         \<and> (\<lceil>real N / real_of_int L\<rceil> - 1) * L < int N"
proof -
  let ?x = "real N / real_of_int L"
  have L: "0 < real_of_int L" using assms by simp
  have "?x \<le> of_int \<lceil>?x\<rceil>" by (rule le_of_int_ceiling)
  from divide_le_mult [OF L this]
  have "real_of_int (int N) \<le> real_of_int (\<lceil>?x\<rceil> * L)" by simp
  then have upper: "int N \<le> \<lceil>?x\<rceil> * L" by (simp only: of_int_le_iff)
  have "of_int \<lceil>?x\<rceil> - 1 < ?x" using ceiling_correct [of ?x] by simp
  from less_divide_mult [OF L this]
  have "real_of_int ((\<lceil>?x\<rceil> - 1) * L) < real_of_int (int N)" by simp
  then have lower: "(\<lceil>?x\<rceil> - 1) * L < int N" by (simp only: of_int_less_iff)
  from upper lower show ?thesis by simp
qed

section \<open>Properties of \<open>create\<close>\<close>

text \<open>
  C1, as amended. When the catalog replies with a product record for every product id of
  the items (and the id the store generates is not in use), \<open>create\<close> returns an order
  whose \<open>totalAmount\<close> is the binary64 sum, from 0 and in the order of the items, of the
  rounded products of the catalog price of the item's product and the item's quantity,
  and whose \<open>totalItems\<close> is the binary64 sum of the quantities. The \<open>totalAmount\<close> is the
  exact sum of price times quantity when every such product and every partial sum is a
  binary64 value, and the \<open>totalItems\<close> is the exact sum of the quantities when every
  partial sum of them is.
\<close>

theorem create_totals:
  assumes reply: "validate_product (map productId items) = Inr products"
    and matched: "\<forall>item\<in>set items. \<exists>p\<in>set products. product_id p = productId item"
    and fresh: "order_findUnique newId w = None"
  shows "\<exists>r w'. create validate_product newId items w = (Inr r, w')
           \<and> totalAmount r =
               js_sum (map (\<lambda>item. js_mul (spec_catalog_price products (productId item))
                                      (real_of_int (quantity item))) items)
           \<and> totalItems r = js_sum (map (\<lambda>item. Finite (real_of_int (quantity item))) items)
           \<and> (list_all (\<lambda>item. binary64 (spec_amount products item)) items
                \<and> exact_sum 0 (map (spec_amount products) items)
              \<longrightarrow> totalAmount r = Finite (\<Sum>item\<leftarrow>items. spec_amount products item))
           \<and> (exact_sum 0 (map (\<lambda>item. real_of_int (quantity item)) items)
              \<longrightarrow> totalItems r = Finite (real_of_int (\<Sum>item\<leftarrow>items. quantity item)))"
proof -
  from matched have k: "\<forall>item\<in>set items. known products (productId item)"
    unfolding known_def by force
  let ?data = "map (\<lambda>item. \<lparr>productId = productId item, quantity = quantity item,
                        price = spec_catalog_price products (productId item)\<rparr>) items"
  let ?amount = "js_sum (map (\<lambda>item. js_mul (spec_catalog_price products (productId item))
                                      (real_of_int (quantity item))) items)"
  let ?count = "js_sum (map (\<lambda>item. Finite (real_of_int (quantity item))) items)"
  have k': "\<forall>item\<in>set ?data. known products (productId item)"
    using k by simp
  have fresh':
    "order_findUnique newId (client_send ''validate_product'' (map productId items) w) = None"
    using fresh by (simp add: order_findUnique_def client_send_def)
  have run: "\<exists>r w'. create validate_product newId items w = (Inr r, w')
               \<and> totalAmount r = ?amount \<and> totalItems r = ?count"
    unfolding create_def create_try_def
    by (simp add: reply reduce_totalAmount_known [OF k] priced_items_known [OF k]
        order_create_def fresh' Let_def attach_names_known [OF k'] with_items_def
        reduce_totalItems_js_sum js_sum_def)
  have amount: "?amount = Finite (\<Sum>item\<leftarrow>items. spec_amount products item)"
    if "list_all (\<lambda>item. binary64 (spec_amount products item)) items
          \<and> exact_sum 0 (map (spec_amount products) items)"
  proof -
    from that have "\<forall>item\<in>set items. binary64 (spec_amount products item)"
      by (simp add: list_all_iff)
    then have "map (\<lambda>item. js_mul (spec_catalog_price products (productId item))
                              (real_of_int (quantity item))) items
               = map Finite (map (spec_amount products) items)"
      by (simp add: js_mul_def spec_amount_def round_binary64_exact)
    then have "js_sum (map (\<lambda>item. js_mul (spec_catalog_price products (productId item))
                                      (real_of_int (quantity item))) items)
               = js_sum (map Finite (map (spec_amount products) items))"
      by (rule arg_cong)
    also from that have "\<dots> = Finite (sum_list (map (spec_amount products) items))"
      by (intro js_sum_exact) simp
    finally show ?thesis .
  qed
  have count: "?count = Finite (real_of_int (\<Sum>item\<leftarrow>items. quantity item))"
    if "exact_sum 0 (map (\<lambda>item. real_of_int (quantity item)) items)"
  proof -
    have "(\<Sum>item\<leftarrow>items. real_of_int (quantity item))
            = real_of_int (\<Sum>item\<leftarrow>items. quantity item)"
      by (induction items) simp_all
    with js_sum_exact [OF that] show ?thesis
      by (simp add: comp_def)
  qed
  from run amount count show ?thesis by auto
qed

text \<open>
  The example of the specification: two units of product 1 at 10 and one unit of
  product 2 at 5 give a total amount of 25 and 3 items; every product and partial sum
  (20, 5, 25; 2, 3) is a binary64 value.
\<close>

theorem create_totals_witness:
  "\<exists>r w'. create (reply_with example_products) ''o1''
             [\<lparr>productId = 1, quantity = 2, price = 10\<rparr>,
              \<lparr>productId = 2, quantity = 1, price = 5\<rparr>] empty_world = (Inr r, w')
         \<and> totalAmount r = Finite 25 \<and> totalItems r = Finite 3"
proof -
  let ?items = "[\<lparr>productId = 1, quantity = 2, price = 10\<rparr>,
                 \<lparr>productId = 2, quantity = 1, price = 5\<rparr>]"
  have h1: "reply_with example_products (map productId ?items) = Inr example_products"
    by (simp add: reply_with_def)
  have h2: "\<forall>item\<in>set ?items. \<exists>p\<in>set example_products. product_id p = productId item"
    by (simp add: example_products_def)
  have h3: "order_findUnique ''o1'' empty_world = None"
    by (simp add: order_findUnique_def empty_world_def)
  have b: "binary64 20" "binary64 5" "binary64 25" "binary64 2" "binary64 3"
    by (simp_all add: js_eval)
  have amounts: "map (spec_amount example_products) ?items = [20, 5]"
    by (simp add: spec_amount_def spec_catalog_price_def example_products_def)
  have h4: "list_all (\<lambda>item. binary64 (spec_amount example_products item)) ?items
              \<and> exact_sum 0 (map (spec_amount example_products) ?items)"
    by (simp add: spec_amount_def spec_catalog_price_def example_products_def b)
  have h5: "exact_sum 0 (map (\<lambda>item. real_of_int (quantity item)) ?items)"
    by (simp add: b)
  from create_totals [where validate_product = "reply_with example_products", OF h1 h2 h3]
  obtain r w' where r:
    "create (reply_with example_products) ''o1'' ?items empty_world = (Inr r, w')"
    "list_all (\<lambda>item. binary64 (spec_amount example_products item)) ?items
       \<and> exact_sum 0 (map (spec_amount example_products) ?items)
     \<longrightarrow> totalAmount r = Finite (\<Sum>item\<leftarrow>?items. spec_amount example_products item)"
    "exact_sum 0 (map (\<lambda>item. real_of_int (quantity item)) ?items)
     \<longrightarrow> totalItems r = Finite (real_of_int (\<Sum>item\<leftarrow>?items. quantity item))"
    by blast
  from r(2) h4 have "totalAmount r = Finite (sum_list (map (spec_amount example_products) ?items))"
    by blast
  then have a: "totalAmount r = Finite 25"
    unfolding amounts by simp
  from r(3) h5 have c: "totalItems r = Finite 3"
    by simp
  from r(1) a c show ?thesis by blast
qed

text \<open>
  C1 as stated (the total amount is the sum of price times quantity) fails for three
  units of a product priced \<^verbatim>\<open>0.1\<close>: the total amount is the binary64 value that prints
  as \<^verbatim>\<open>0.30000000000000004\<close>, which is not three times the price.
\<close>

theorem create_totals_counterexample:
  "fst (create (reply_with [\<lparr>product_id = 1, product_name = ''A'', product_price = one_tenth\<rparr>])
          ''o1'' [\<lparr>productId = 1, quantity = 3, price = one_tenth\<rparr>] empty_world)
     = Inr \<lparr>order_id = ''o1'', totalAmount = Finite (5404319552844596 / 18014398509481984),
            totalItems = Finite 3, status = PENDING, paid = False, paidAt = None,
            stripeChargeId = None,
            OrderItems = [\<lparr>productId = 1, quantity = 3, price = one_tenth, name = ''A''\<rparr>],
            OrderReceipt = None\<rparr>
   \<and> Finite (5404319552844596 / 18014398509481984) \<noteq> Finite (one_tenth * 3)"
  by (simp add: create_def create_try_def client_send_def order_create_def reply_with_def
      empty_world_def find_product_def order_findUnique_def with_items_def
      reduce_totalItems_def order_item.extend_def named_item.fields_def one_tenth_def js_eval)

text \<open>
  C2. When the catalog call is rejected, and when the catalog reply lacks a record for
  the product id of at least one item, \<open>create\<close> fails with a \<open>BAD_REQUEST\<close> error that
  carries the message of the underlying error (the rejection's message, or the message
  naming an unmatched product id), and the store is as before: the same rows, no write.
\<close>

theorem create_failure_leaves_store:
  "(validate_product (map productId items) = Inl m \<longrightarrow>
      (\<exists>w'. create validate_product newId items w = (Inl (RpcException BAD_REQUEST m), w')
            \<and> orders w' = orders w \<and> writes w' = writes w))
   \<and> (validate_product (map productId items) = Inr products
        \<and> (\<exists>item\<in>set items. \<not> (\<exists>p\<in>set products. product_id p = productId item)) \<longrightarrow>
      (\<exists>item\<in>set items. \<exists>w'.
          \<not> (\<exists>p\<in>set products. product_id p = productId item)
          \<and> create validate_product newId items w =
              (Inl (RpcException BAD_REQUEST
                 (''Product with id '' @ show_int (productId item) @ '' not found'')), w')
          \<and> orders w' = orders w \<and> writes w' = writes w))"
proof (intro conjI impI)
  assume "validate_product (map productId items) = Inl m"
  then show "\<exists>w'. create validate_product newId items w = (Inl (RpcException BAD_REQUEST m), w')
            \<and> orders w' = orders w \<and> writes w' = writes w"
    by (simp add: create_def create_try_def client_send_def)
next
  assume a: "validate_product (map productId items) = Inr products
        \<and> (\<exists>item\<in>set items. \<not> (\<exists>p\<in>set products. product_id p = productId item))"
  then have "\<exists>item\<in>set items. \<not> known products (productId item)"
    unfolding known_def by force
  from reduce_totalAmount_unknown [OF this, of "Finite 0"]
  obtain item where item: "item \<in> set items" "\<not> known products (productId item)"
    "reduce_totalAmount products (Finite 0) items =
       Inl (Error (''Product with id '' @ show_int (productId item) @ '' not found''))"
    by blast
  from item(2) have "\<not> (\<exists>p\<in>set products. product_id p = productId item)"
    unfolding known_def by force
  moreover from a item(3)
  have "\<exists>w'. create validate_product newId items w =
              (Inl (RpcException BAD_REQUEST
                 (''Product with id '' @ show_int (productId item) @ '' not found'')), w')
          \<and> orders w' = orders w \<and> writes w' = writes w"
    by (simp add: create_def create_try_def client_send_def)
  ultimately show "\<exists>item\<in>set items. \<exists>w'.
          \<not> (\<exists>p\<in>set products. product_id p = productId item)
          \<and> create validate_product newId items w =
              (Inl (RpcException BAD_REQUEST
                 (''Product with id '' @ show_int (productId item) @ '' not found'')), w')
          \<and> orders w' = orders w \<and> writes w' = writes w"
    using item(1) by blast
qed

text \<open>A catalog timeout, and an order for the unknown product 37.\<close>

theorem create_failure_leaves_store_witness:
  "(\<exists>w'. create (reject_with ''Timeout has occurred'') ''o1''
            [\<lparr>productId = 1, quantity = 2, price = 10\<rparr>] empty_world
          = (Inl (RpcException BAD_REQUEST ''Timeout has occurred''), w')
        \<and> orders w' = [] \<and> writes w' = 0)
   \<and> (\<exists>w'. create (reply_with [\<lparr>product_id = 1, product_name = ''A'', product_price = 10\<rparr>]) ''o1''
            [\<lparr>productId = 1, quantity = 2, price = 10\<rparr>,
             \<lparr>productId = 37, quantity = 1, price = 5\<rparr>] empty_world
          = (Inl (RpcException BAD_REQUEST ''Product with id 37 not found''), w')
        \<and> orders w' = [] \<and> writes w' = 0)"
proof -
  let ?i1 = "[\<lparr>productId = 1, quantity = 2, price = 10\<rparr>]"
  let ?i2 = "[\<lparr>productId = 1, quantity = 2, price = 10\<rparr>,
             \<lparr>productId = 37, quantity = 1, price = 5\<rparr>]"
  let ?ps = "[\<lparr>product_id = 1, product_name = ''A'', product_price = 10\<rparr>]"
  have a: "reject_with ''Timeout has occurred'' (map productId ?i1) = Inl ''Timeout has occurred''"
    by (simp add: reject_with_def)
  have b: "reply_with ?ps (map productId ?i2) = Inr ?ps
        \<and> (\<exists>item\<in>set ?i2. \<not> (\<exists>p\<in>set ?ps. product_id p = productId item))"
    by (simp add: reply_with_def)
  from create_failure_leaves_store [of "reject_with ''Timeout has occurred''" ?i1
      "''Timeout has occurred''" "''o1''" empty_world]
  have 1: "\<exists>w'. create (reject_with ''Timeout has occurred'') ''o1'' ?i1 empty_world
          = (Inl (RpcException BAD_REQUEST ''Timeout has occurred''), w')
        \<and> orders w' = [] \<and> writes w' = 0"
    using a by (simp add: empty_world_def)
  from create_failure_leaves_store [of "reply_with ?ps" ?i2 _ "''o1''" empty_world ?ps]
  have 2: "\<exists>w'. create (reply_with ?ps) ''o1'' ?i2 empty_world
          = (Inl (RpcException BAD_REQUEST ''Product with id 37 not found''), w')
        \<and> orders w' = [] \<and> writes w' = 0"
    using b by (simp add: empty_world_def show_int_37)
  from 1 2 show ?thesis by blast
qed

text \<open>
  C9, as amended. \<open>create\<close> sends the catalog one request whose payload is the list of
  the items' product ids, one id per item in the order of the items; an id that two
  items share is sent twice.
\<close>

theorem create_sends_one_id_per_item:
  "sent (snd (create validate_product newId items w)) =
     sent w @ [(''validate_product'', map productId items)]"
  by (auto simp: create_def create_try_def client_send_def order_create_def Let_def
      split: sum.splits prod.splits if_splits)

text \<open>
  C9 as stated (the ids sent are distinct) fails for two items with the product id 1:
  the payload is \<open>[1, 1]\<close>.
\<close>

theorem create_sends_duplicates_counterexample:
  "sent (snd (create (reply_with [\<lparr>product_id = 1, product_name = ''A'', product_price = 10\<rparr>])
                ''o1''
                [\<lparr>productId = 1, quantity = 2, price = 10\<rparr>,
                 \<lparr>productId = 1, quantity = 3, price = 10\<rparr>] empty_world))
     = [(''validate_product'', [1, 1])]
   \<and> \<not> distinct [1, 1 :: int]"
  by (simp add: create_def create_try_def client_send_def order_create_def Let_def
      reply_with_def empty_world_def find_product_def order_findUnique_def with_items_def
      reduce_totalItems_def)

section \<open>Properties of \<open>findOne\<close>, \<open>changeOrderStatus\<close> and \<open>paidOrder\<close>\<close>

text \<open>
  C4. For an id that no stored order has, \<open>findOne\<close> fails with a \<open>NOT_FOUND\<close> error and
  leaves the world as it was; in particular nothing has been sent to the catalog.
\<close>

theorem findOne_not_found:
  assumes "\<forall>ord\<in>set (orders w). order_id ord \<noteq> i"
  shows "findOne validate_product i w =
           (Inl (RpcException NOT_FOUND (''Order with id '' @ i @ '' not found'')), w)
         \<and> sent (snd (findOne validate_product i w)) = sent w"
proof -
  from assms have "order_findUnique i w = None"
    by (simp add: order_findUnique_None)
  then show ?thesis by (simp add: findOne_def)
qed

theorem findOne_not_found_witness:
  "findOne (reply_with []) ''o2'' example_world =
     (Inl (RpcException NOT_FOUND ''Order with id o2 not found''), example_world)
   \<and> sent (snd (findOne (reply_with []) ''o2'' example_world)) = []"
proof -
  have h: "\<forall>ord\<in>set (orders example_world). order_id ord \<noteq> ''o2''"
    by (simp add: example_world_def example_order_def)
  from findOne_not_found [OF h, of "reply_with []"]
  show ?thesis by (simp add: example_world_def)
qed

text \<open>
  C5. When the stored order already has the requested status, \<open>changeOrderStatus\<close> fails
  with a \<open>BAD_REQUEST\<close> error and the world, hence the stored order and its status, is
  unchanged.
\<close>

theorem changeOrderStatus_same_status:
  assumes "order_findUnique i w = Some ord" and "status ord = st"
  shows "changeOrderStatus i st w =
           (Inl (RpcException BAD_REQUEST
              (''Order with id '' @ i @ '' already has status '' @ show_status st)), w)
         \<and> order_findUnique i (snd (changeOrderStatus i st w)) = Some ord"
  using assms by (simp add: changeOrderStatus_def)

theorem changeOrderStatus_same_status_witness:
  "changeOrderStatus ''o1'' PENDING example_world =
     (Inl (RpcException BAD_REQUEST ''Order with id o1 already has status PENDING''),
      example_world)
   \<and> order_findUnique ''o1'' (snd (changeOrderStatus ''o1'' PENDING example_world))
       = Some example_order"
proof -
  have h1: "order_findUnique ''o1'' example_world = Some example_order"
    by (simp add: order_findUnique_def example_world_def example_order_def)
  have h2: "status example_order = PENDING"
    by (simp add: example_order_def)
  from changeOrderStatus_same_status [OF h1 h2] h1 show ?thesis by simp
qed

text \<open>
  C6. When the requested status differs from the stored one, \<open>changeOrderStatus\<close> returns
  the stored order with only its status replaced, that row is what the store then holds
  under the id, the rows of other ids are as before, and a later \<open>findOne\<close> of the id
  (with a catalog that knows the products of the order) shows the new status.
\<close>

theorem changeOrderStatus_new_status:
  assumes found: "order_findUnique i w = Some ord" and differs: "status ord \<noteq> st"
  shows "\<exists>w'. changeOrderStatus i st w = (Inr (ord\<lparr>status := st\<rparr>), w')
           \<and> order_findUnique i w' = Some (ord\<lparr>status := st\<rparr>)
           \<and> (\<forall>j. j \<noteq> i \<longrightarrow> order_findUnique j w' = order_findUnique j w)
           \<and> (\<forall>validate_product products.
                 validate_product (map productId (OrderItems ord)) = Inr products
                 \<and> (\<forall>item\<in>set (OrderItems ord). \<exists>p\<in>set products. product_id p = productId item)
                 \<longrightarrow> (\<exists>r w''. findOne validate_product i w' = (Inr r, w'') \<and> status r = st
                        \<and> order_id r = order_id ord \<and> totalAmount r = totalAmount ord
                        \<and> totalItems r = totalItems ord))"
proof -
  let ?d = "\<lparr>set_status = Some st, set_paid = None, set_paidAt = None,
             set_stripeChargeId = None, create_receipt = None\<rparr>"
  let ?w' = "w\<lparr>orders := replace_row i (apply_update ?d ord) (orders w),
               writes := Suc (writes w)\<rparr>"
  have new: "apply_update ?d ord = ord\<lparr>status := st\<rparr>"
    by (simp add: apply_update_def)
  have upd: "order_update i ?d w = Inr (apply_update ?d ord, ?w')"
    using found by (simp add: order_update_Some)
  have res: "changeOrderStatus i st w = (Inr (ord\<lparr>status := st\<rparr>), ?w')"
    using found differs upd by (simp add: changeOrderStatus_def new)
  have same: "order_findUnique i ?w' = Some (ord\<lparr>status := st\<rparr>)"
    using order_findUnique_after_update(1) [OF found, where d = ?d] by (simp add: new)
  have other: "\<forall>j. j \<noteq> i \<longrightarrow> order_findUnique j ?w' = order_findUnique j w"
    using order_findUnique_after_update(2) [OF found, where d = ?d] by simp
  have read: "\<exists>r w''. findOne validate_product i ?w' = (Inr r, w'') \<and> status r = st
                        \<and> order_id r = order_id ord \<and> totalAmount r = totalAmount ord
                        \<and> totalItems r = totalItems ord"
    if r: "validate_product (map productId (OrderItems ord)) = Inr products"
      and m: "\<forall>item\<in>set (OrderItems ord). \<exists>p\<in>set products. product_id p = productId item"
    for validate_product products
  proof -
    from m have k: "\<forall>item\<in>set (OrderItems (ord\<lparr>status := st\<rparr>)). known products (productId item)"
      unfolding known_def by force
    from findOne_known [OF same _ k, of validate_product] r
    show ?thesis by (simp add: with_items_def)
  qed
  from res same other read show ?thesis by blast
qed


theorem changeOrderStatus_new_status_witness:
  "\<exists>w'. changeOrderStatus ''o1'' CANCELLED example_world
           = (Inr (example_order\<lparr>status := CANCELLED\<rparr>), w')
        \<and> order_findUnique ''o1'' w' = Some (example_order\<lparr>status := CANCELLED\<rparr>)
        \<and> (\<exists>r w''. findOne (reply_with example_products) ''o1'' w' = (Inr r, w'')
              \<and> status r = CANCELLED)"
proof -
  have h: "status example_order \<noteq> CANCELLED"
    by (simp add: example_order_def)
  from changeOrderStatus_new_status [OF example_found h]
  obtain w' where w':
    "changeOrderStatus ''o1'' CANCELLED example_world
       = (Inr (example_order\<lparr>status := CANCELLED\<rparr>), w')"
    "order_findUnique ''o1'' w' = Some (example_order\<lparr>status := CANCELLED\<rparr>)"
    "\<forall>validate_product products.
        validate_product (map productId (OrderItems example_order)) = Inr products
        \<and> (\<forall>item\<in>set (OrderItems example_order). \<exists>p\<in>set products. product_id p = productId item)
        \<longrightarrow> (\<exists>r w''. findOne validate_product ''o1'' w' = (Inr r, w'') \<and> status r = CANCELLED
               \<and> order_id r = order_id example_order \<and> totalAmount r = totalAmount example_order
               \<and> totalItems r = totalItems example_order)"
    by blast
  have c: "reply_with example_products (map productId (OrderItems example_order))
             = Inr example_products
           \<and> (\<forall>item\<in>set (OrderItems example_order).
                 \<exists>p\<in>set example_products. product_id p = productId item)"
    by (simp add: reply_with_def example_products_def example_order_def)
  from w'(3) c have "\<exists>r w''. findOne (reply_with example_products) ''o1'' w' = (Inr r, w'')
              \<and> status r = CANCELLED"
    by blast
  with w'(1,2) show ?thesis by blast
qed

text \<open>
  C3, as amended. For an existing order that has no receipt yet, \<open>paidOrder\<close> returns the
  order with status \<open>PAID\<close>, \<open>paid\<close> true, \<open>paidAt\<close> the current time, the given charge
  id, and a receipt with the given URL; the other fields are as before, the store holds
  that row, and exactly one write has been committed.
\<close>

theorem paidOrder_marks_paid:
  assumes found: "order_findUnique (orderId paidOrderDto) w = Some ord"
    and no_receipt: "OrderReceipt ord = None"
  shows "\<exists>new w'. paidOrder now paidOrderDto w = (Inr new, w')
           \<and> new = ord\<lparr>status := PAID, paid := True, paidAt := Some now,
                       stripeChargeId := Some (stripePaymentId paidOrderDto),
                       OrderReceipt := Some \<lparr>receiptUrl = paid_receiptUrl paidOrderDto\<rparr>\<rparr>
           \<and> order_findUnique (orderId paidOrderDto) w' = Some new
           \<and> (\<forall>j. j \<noteq> orderId paidOrderDto \<longrightarrow> order_findUnique j w' = order_findUnique j w)
           \<and> writes w' = Suc (writes w)"
proof -
  let ?d = "\<lparr>set_status = Some PAID, set_paid = Some True, set_paidAt = Some now,
              set_stripeChargeId = Some (stripePaymentId paidOrderDto),
              create_receipt = Some (paid_receiptUrl paidOrderDto)\<rparr>"
  let ?i = "orderId paidOrderDto"
  let ?w' = "w\<lparr>orders := replace_row ?i (apply_update ?d ord) (orders w),
               writes := Suc (writes w)\<rparr>"
  have new: "apply_update ?d ord =
               ord\<lparr>status := PAID, paid := True, paidAt := Some now,
                       stripeChargeId := Some (stripePaymentId paidOrderDto),
                       OrderReceipt := Some \<lparr>receiptUrl = paid_receiptUrl paidOrderDto\<rparr>\<rparr>"
    by (simp add: apply_update_def)
  have upd: "order_update ?i ?d w = Inr (apply_update ?d ord, ?w')"
    using found no_receipt by (simp add: order_update_Some)
  then have res: "paidOrder now paidOrderDto w = (Inr (apply_update ?d ord), ?w')"
    by (simp add: paidOrder_def)
  have same: "order_findUnique ?i ?w' = Some (apply_update ?d ord)"
    using order_findUnique_after_update(1) [OF found, where d = ?d] by simp
  have other: "\<forall>j. j \<noteq> ?i \<longrightarrow> order_findUnique j ?w' = order_findUnique j w"
    using order_findUnique_after_update(2) [OF found, where d = ?d] by simp
  have "writes ?w' = Suc (writes w)" by simp
  with res same other show ?thesis
    unfolding new by blast
qed

theorem paidOrder_marks_paid_witness:
  "\<exists>new w'. paidOrder 100 first_payment example_world = (Inr new, w')
      \<and> status new = PAID \<and> paid new \<and> paidAt new = Some 100
      \<and> stripeChargeId new = Some ''ch_1''
      \<and> OrderReceipt new = Some \<lparr>receiptUrl = ''https://r/1''\<rparr>
      \<and> totalAmount new = Finite 25
      \<and> order_findUnique ''o1'' w' = Some new
      \<and> writes w' = 2"
proof -
  have h1: "order_findUnique (orderId first_payment) example_world = Some example_order"
    using example_found by (simp add: first_payment_def)
  have h2: "OrderReceipt example_order = None"
    by (simp add: example_order_def)
  from paidOrder_marks_paid [OF h1 h2, of 100]
  show ?thesis
    by (auto simp: first_payment_def example_order_def example_world_def)
qed

text \<open>
  C3 as stated (for every existing order) fails for an order that already has a receipt:
  the second payment of the same order is rejected by the store, which keeps the first
  receipt and the first charge id, and commits no write.
\<close>

theorem paidOrder_twice_counterexample:
  "fst (paidOrder 200 second_payment (snd (paidOrder 100 first_payment example_world)))
     = Inl (PrismaClientError ''Unique constraint failed on the fields: (`orderId`)'')
   \<and> map OrderReceipt
        (orders (snd (paidOrder 200 second_payment (snd (paidOrder 100 first_payment example_world)))))
     = [Some \<lparr>receiptUrl = ''https://r/1''\<rparr>]
   \<and> map stripeChargeId
        (orders (snd (paidOrder 200 second_payment (snd (paidOrder 100 first_payment example_world)))))
     = [Some ''ch_1'']
   \<and> writes (snd (paidOrder 200 second_payment (snd (paidOrder 100 first_payment example_world))))
     = writes (snd (paidOrder 100 first_payment example_world))"
  by (simp add: paidOrder_def order_update_def order_findUnique_def apply_update_def
      first_payment_def second_payment_def example_world_def example_order_def Let_def)

text \<open>
  C8. For an existing order and a catalog reply that has a record for every product of
  its items, \<open>findOne\<close> returns the order with its stored items: product id, price and
  quantity are the stored ones, and the name of each item is the name the reply of this
  very call gives for the product, whatever the catalog said when the order was created.
\<close>

theorem findOne_fresh_names:
  assumes found: "order_findUnique i w = Some ord"
    and reply: "validate_product (map productId (OrderItems ord)) = Inr products"
    and matched: "\<forall>item\<in>set (OrderItems ord). \<exists>p\<in>set products. product_id p = productId item"
  shows "\<exists>r w'. findOne validate_product i w = (Inr r, w')
           \<and> map order_item.truncate (OrderItems r) = OrderItems ord
           \<and> map price (OrderItems r) = map price (OrderItems ord)
           \<and> map quantity (OrderItems r) = map quantity (OrderItems ord)
           \<and> map name (OrderItems r)
               = map (\<lambda>item. spec_catalog_name products (productId item)) (OrderItems ord)
           \<and> with_items r (OrderItems ord) = ord
           \<and> sent w' = sent w @ [(''validate_product'', map productId (OrderItems ord))]"
proof -
  from matched have k: "\<forall>item\<in>set (OrderItems ord). known products (productId item)"
    by (simp add: known_iff)
  have "map (order_item.truncate \<circ> (\<lambda>item. order_item.extend item (named_item.fields (f item)))) xs = xs"
    for f :: "order_item \<Rightarrow> string" and xs
    by (induction xs) (simp_all add: order_item.truncate_def order_item.extend_def named_item.fields_def)
  then show ?thesis
    unfolding findOne_known [where validate_product = validate_product, OF found reply k]
    by (simp add: with_items_def client_send_def o_def order_item.extend_def named_item.fields_def)
qed

text \<open>
  The stored prices 10 and 5 stay, although the catalog now says 99 and 7; the names are
  the new ones.
\<close>

theorem findOne_fresh_names_witness:
  "\<exists>r w'. findOne (reply_with renamed_products) ''o1'' example_world = (Inr r, w')
      \<and> map price (OrderItems r) = [10, 5]
      \<and> map quantity (OrderItems r) = [2, 1]
      \<and> map name (OrderItems r) = [''A (new)'', ''B (2nd edition)'']"
proof -
  have h2: "reply_with renamed_products (map productId (OrderItems example_order))
              = Inr renamed_products"
    by (simp add: reply_with_def)
  have h3: "\<forall>item\<in>set (OrderItems example_order).
              \<exists>p\<in>set renamed_products. product_id p = productId item"
    by (simp add: example_order_def renamed_products_def)
  from findOne_fresh_names
    [where validate_product = "reply_with renamed_products", OF example_found h2 h3]
  show ?thesis
    by (auto simp: example_order_def renamed_products_def spec_catalog_name_def)
qed

text \<open>
  C10. For an existing order and a catalog reply, if the reply lacks a record for the
  product of some stored item, \<open>findOne\<close> ends in the \<open>TypeError\<close> of reading \<open>name\<close>
  from an absent lookup result, which is no \<open>RpcException\<close>; \<open>findOne\<close> returns an order
  exactly when the reply has a record for every stored product id. The enrichment
  \<open>attach_names\<close>, which \<open>create\<close> applies in the same way, fails so on any items with an
  unmatched product id.
\<close>

theorem findOne_unguarded_lookup:
  assumes found: "order_findUnique i w = Some ord"
    and reply: "validate_product (map productId (OrderItems ord)) = Inr products"
  shows "((\<exists>item\<in>set (OrderItems ord). \<not> (\<exists>p\<in>set products. product_id p = productId item)) \<longrightarrow>
            (\<exists>w'. findOne validate_product i w =
                     (Inl (TypeError ''Cannot read properties of undefined (reading 'name')''), w'))
            \<and> (\<forall>code m. fst (findOne validate_product i w) \<noteq> Inl (RpcException code m)))
         \<and> ((\<exists>r w'. findOne validate_product i w = (Inr r, w')) \<longleftrightarrow>
              (\<forall>item\<in>set (OrderItems ord). \<exists>p\<in>set products. product_id p = productId item))
         \<and> (\<forall>items. (\<exists>item\<in>set items. \<not> (\<exists>p\<in>set products. product_id p = productId item)) \<longrightarrow>
              attach_names products items =
                Inl (TypeError ''Cannot read properties of undefined (reading 'name')''))"
proof -
  have fails: "findOne validate_product i w =
                 (Inl (TypeError ''Cannot read properties of undefined (reading 'name')''),
                  client_send ''validate_product'' (map productId (OrderItems ord)) w)"
    if "\<exists>item\<in>set (OrderItems ord). \<not> (\<exists>p\<in>set products. product_id p = productId item)"
  proof -
    from that have "\<exists>item\<in>set (OrderItems ord). \<not> known products (productId item)"
      by (simp add: known_iff)
    from attach_names_unknown [OF this] found reply show ?thesis
      by (simp add: findOne_def Let_def)
  qed
  have succeeds: "\<exists>r w'. findOne validate_product i w = (Inr r, w')"
    if "\<forall>item\<in>set (OrderItems ord). \<exists>p\<in>set products. product_id p = productId item"
  proof -
    from that have "\<forall>item\<in>set (OrderItems ord). known products (productId item)"
      by (simp add: known_iff)
    from findOne_known [where validate_product = validate_product, OF found reply this]
    show ?thesis by blast
  qed
  have enrich: "attach_names products items =
                Inl (TypeError ''Cannot read properties of undefined (reading 'name')'')"
    if "\<exists>item\<in>set items. \<not> (\<exists>p\<in>set products. product_id p = productId item)" for items
    using that attach_names_unknown [of items products] by (simp add: known_iff)
  have c1: "(\<exists>item\<in>set (OrderItems ord). \<not> (\<exists>p\<in>set products. product_id p = productId item)) \<longrightarrow>
            (\<exists>w'. findOne validate_product i w =
                     (Inl (TypeError ''Cannot read properties of undefined (reading 'name')''), w'))
            \<and> (\<forall>code m. fst (findOne validate_product i w) \<noteq> Inl (RpcException code m))"
  proof
    assume "\<exists>item\<in>set (OrderItems ord). \<not> (\<exists>p\<in>set products. product_id p = productId item)"
    from fails [OF this] show "(\<exists>w'. findOne validate_product i w =
                     (Inl (TypeError ''Cannot read properties of undefined (reading 'name')''), w'))
            \<and> (\<forall>code m. fst (findOne validate_product i w) \<noteq> Inl (RpcException code m))"
      by simp
  qed
  have c2: "(\<exists>r w'. findOne validate_product i w = (Inr r, w')) \<longleftrightarrow>
              (\<forall>item\<in>set (OrderItems ord). \<exists>p\<in>set products. product_id p = productId item)"
  proof
    assume ok: "\<exists>r w'. findOne validate_product i w = (Inr r, w')"
    show "\<forall>item\<in>set (OrderItems ord). \<exists>p\<in>set products. product_id p = productId item"
    proof (rule ccontr)
      assume "\<not> (\<forall>item\<in>set (OrderItems ord). \<exists>p\<in>set products. product_id p = productId item)"
      then have "\<exists>item\<in>set (OrderItems ord). \<not> (\<exists>p\<in>set products. product_id p = productId item)"
        by blast
      from fails [OF this] ok show False by simp
    qed
  next
    assume "\<forall>item\<in>set (OrderItems ord). \<exists>p\<in>set products. product_id p = productId item"
    then show "\<exists>r w'. findOne validate_product i w = (Inr r, w')" by (rule succeeds)
  qed
  from enrich have c3: "\<forall>items. (\<exists>item\<in>set items. \<not> (\<exists>p\<in>set products. product_id p = productId item)) \<longrightarrow>
              attach_names products items =
                Inl (TypeError ''Cannot read properties of undefined (reading 'name')'')"
    by blast
  from c1 c2 c3 show ?thesis by (intro conjI)
qed

theorem findOne_unguarded_lookup_witness:
  "(\<exists>w'. findOne (reply_with [\<lparr>product_id = 1, product_name = ''A'', product_price = 10\<rparr>])
            ''o1'' example_world =
           (Inl (TypeError ''Cannot read properties of undefined (reading 'name')''), w'))
   \<and> (\<exists>r w'. findOne (reply_with example_products) ''o1'' example_world = (Inr r, w'))"
proof -
  let ?ps = "[\<lparr>product_id = 1, product_name = ''A'', product_price = 10\<rparr>]"
  have a: "reply_with ?ps (map productId (OrderItems example_order)) = Inr ?ps"
    by (simp add: reply_with_def)
  have b: "\<exists>item\<in>set (OrderItems example_order). \<not> (\<exists>p\<in>set ?ps. product_id p = productId item)"
    by (simp add: example_order_def)
  have c: "reply_with example_products (map productId (OrderItems example_order))
             = Inr example_products"
    by (simp add: reply_with_def)
  have d: "\<forall>item\<in>set (OrderItems example_order).
             \<exists>p\<in>set example_products. product_id p = productId item"
    by (simp add: example_order_def example_products_def)
  from findOne_unguarded_lookup [where validate_product = "reply_with ?ps", OF example_found a] b
  have 1: "\<exists>w'. findOne (reply_with ?ps) ''o1'' example_world =
           (Inl (TypeError ''Cannot read properties of undefined (reading 'name')''), w')"
    by blast
  from findOne_unguarded_lookup
    [where validate_product = "reply_with example_products", OF example_found c] d
  have 2: "\<exists>r w'. findOne (reply_with example_products) ''o1'' example_world = (Inr r, w')"
    by blast
  from 1 2 show ?thesis by blast
qed

section \<open>Properties of \<open>findAll\<close>\<close>

text \<open>
  C7. For a status filter (possibly absent), a page \<open>p \<ge> 1\<close> and a page size \<open>L \<ge> 1\<close>,
  with \<open>N\<close> the number of stored orders the filter matches: \<open>findAll\<close> returns
  \<open>meta.total = N\<close>, \<open>meta.page = p\<close> and \<open>meta.lastPage = \<lceil>N / L\<rceil>\<close>, the least number of
  pages of size \<open>L\<close> that hold \<open>N\<close> orders, whatever the page; the data are the matches
  after the first \<open>(p - 1) * L\<close>, at most \<open>L\<close> of them.
\<close>

theorem findAll_pagination:
  assumes page_ok: "1 \<le> p" and limit_ok: "1 \<le> L"
  shows "\<exists>pg k. findAll st p L w = Inr pg
           \<and> total_meta (meta pg) = length (spec_matches st w)
           \<and> page (meta pg) = p
           \<and> lastPage (meta pg) = Num k
           \<and> k = \<lceil>real (length (spec_matches st w)) / real_of_int L\<rceil>
           \<and> int (length (spec_matches st w)) \<le> k * L
           \<and> (k - 1) * L < int (length (spec_matches st w))
           \<and> data pg = take (nat L) (drop (nat ((p - 1) * L)) (spec_matches st w))
           \<and> int (length (data pg)) \<le> L"
proof -
  from page_ok limit_ok have skip: "\<not> (p - 1) * L < 0"
    by (simp add: not_less)
  from limit_ok have L: "L \<noteq> 0" "0 \<le> L" by simp_all
  have res: "findAll st p L w =
          Inr \<lparr>data = take (nat L) (drop (nat ((p - 1) * L)) (spec_matches st w)),
               meta = \<lparr>total_meta = length (spec_matches st w), page = p,
                       lastPage = Num \<lceil>real (length (spec_matches st w)) / real_of_int L\<rceil>\<rparr>\<rparr>"
    using skip L
    by (simp add: findAll_def order_findMany_def order_count_def ceil_div_def matching_spec
        Let_def)
  have len: "int (length (take (nat L) (drop (nat ((p - 1) * L)) (spec_matches st w)))) \<le> L"
    using limit_ok by simp
  from res len ceiling_bounds [OF limit_ok, of "length (spec_matches st w)"]
  show ?thesis by simp
qed

theorem findAll_pagination_witness:
  "\<exists>pg. findAll (Some PENDING) 2 1 three_orders_world = Inr pg
      \<and> total_meta (meta pg) = 2 \<and> page (meta pg) = 2 \<and> lastPage (meta pg) = Num 2
      \<and> data pg = [example_order\<lparr>order_id := ''o3''\<rparr>]"
proof -
  have m: "spec_matches (Some PENDING) three_orders_world
             = [example_order, example_order\<lparr>order_id := ''o3''\<rparr>]"
    by (simp add: spec_matches_def three_orders_world_def example_order_def)
  from findAll_pagination [of 2 1 "Some PENDING" three_orders_world]
  show ?thesis by (auto simp: m)
qed

end
